theory Spec2Isabelle
  imports Complex_Main "HOL-Library.Sublist" "HOL-Library.Multiset"
begin

section \<open>Data model (internal/detector/detector.go)\<close>

text \<open>
  Go's \<open>float64\<close> scores are idealised as \<^typ>\<open>real\<close>: comparisons against the
  thresholds and the weighted average are the mathematical ones, without rounding and
  without NaN or infinities. Every score the program builds from its fixed tables is a small
  sum of integers, which \<open>float64\<close> represents exactly.
\<close>

text \<open>
  \<open>type RiskLevel string\<close> with the four constants HIGH, MEDIUM, LOW, SAFE. The zero value
  of a freshly allocated result is the empty string, which is none of the four.
\<close>

datatype RiskLevel =
    RiskLevelHigh
  | RiskLevelMedium
  | RiskLevelLow
  | RiskLevelSafe
  | RiskLevelUnset

text \<open>
  The five entries of \<open>WebshellPatterns\<close>, in source order. The regular expressions
  themselves are run by Go's \<open>regexp\<close> package, which is outside the repository; a
  pattern is identified here by what its source comment says it looks for.
\<close>

datatype pattern =
    DangerousCall
  | DynamicExec
  | EncodedPayload
  | InputAssign
  | FileBackdoor

text \<open>
  An element of a match list: the text of a regular expression that matched, or the
  formatted name and tags of a rule that matched.
\<close>

datatype feature = PatternText pattern | RuleText string

record DetectionResult =
  FilePath :: string
  IsWebshell :: bool
  RiskLevel :: RiskLevel
  FeatureScore :: real
  BehaviorScore :: real
  MLScore :: real
  MatchedFeatures :: "feature list"
  Behaviors :: "string list"
  TotalScore :: real

text \<open>The fields of \<open>config.Config\<close> that the detector reads.\<close>

record Config =
  BehaviorAnalysis_Enabled :: bool
  MachineLearning_Enabled :: bool
  Yara_Enabled :: bool
  Yara_RulesDir :: string
  Yara_RuleTypes :: "string list"
  Yara_MaxFileSize :: int

section \<open>Composite scoring: \<open>calculateTotalScore\<close>\<close>

text \<open>The \<open>weights\<close> map of \<open>calculateTotalScore\<close>.\<close>

definition weights_feature :: real where "weights_feature = 0.5"
definition weights_behavior :: real where "weights_behavior = 0.3"
definition weights_ml :: real where "weights_ml = 0.2"

text \<open>
  \<open>calculateTotalScore\<close> mutates the result in four consecutive stages. Each stage is a
  function from the result to the updated result; the running sums \<open>totalScore\<close> and
  \<open>totalWeight\<close> are local to the first stage.

  Stage 1 (lines 118 to 141): the blend. The behaviour score is overwritten with 0 when
  behaviour analysis is enabled and the behaviour list is empty; the ML score is overwritten
  with a tenth of itself when ML is enabled, the feature score is 0 and the behaviour list is
  empty; \<open>TotalScore\<close> becomes \<open>totalScore / totalWeight\<close>.
\<close>

definition blendBehavior :: "Config \<Rightarrow> DetectionResult \<Rightarrow> DetectionResult" where
  "blendBehavior cfg r =
     (if BehaviorAnalysis_Enabled cfg \<and> Behaviors r = [] then r\<lparr>BehaviorScore := 0\<rparr> else r)"

definition blendML :: "Config \<Rightarrow> DetectionResult \<Rightarrow> DetectionResult" where
  "blendML cfg r =
     (if MachineLearning_Enabled cfg \<and> FeatureScore r = 0 \<and> Behaviors r = []
      then r\<lparr>MLScore := MLScore r * 0.1\<rparr> else r)"

definition blendScores :: "Config \<Rightarrow> DetectionResult \<Rightarrow> DetectionResult" where
  "blendScores cfg r0 =
     (let totalScore0 = 0 + FeatureScore r0 * weights_feature;
          totalWeight0 = weights_feature;
          r1 = blendBehavior cfg r0;
          totalScore1 = (if BehaviorAnalysis_Enabled cfg
                         then totalScore0 + BehaviorScore r1 * weights_behavior
                         else totalScore0);
          totalWeight1 = (if BehaviorAnalysis_Enabled cfg
                          then totalWeight0 + weights_behavior else totalWeight0);
          r2 = blendML cfg r1;
          totalScore2 = (if MachineLearning_Enabled cfg
                         then totalScore1 + MLScore r2 * weights_ml
                         else totalScore1);
          totalWeight2 = (if MachineLearning_Enabled cfg
                          then totalWeight1 + weights_ml else totalWeight1)
      in r2\<lparr>TotalScore := totalScore2 / totalWeight2\<rparr>)"

text \<open>Stage 2 (lines 144 to 157): the \<open>switch\<close> on the blended score, first case first.\<close>

definition classifyRisk :: "DetectionResult \<Rightarrow> DetectionResult" where
  "classifyRisk r =
     (if TotalScore r \<ge> 85 then r\<lparr>RiskLevel := RiskLevelHigh, IsWebshell := True\<rparr>
      else if TotalScore r \<ge> 70
        then r\<lparr>RiskLevel := RiskLevelMedium, IsWebshell := (FeatureScore r > 80)\<rparr>
      else if TotalScore r \<ge> 40 then r\<lparr>RiskLevel := RiskLevelLow, IsWebshell := False\<rparr>
      else r\<lparr>RiskLevel := RiskLevelSafe, IsWebshell := False\<rparr>)"

text \<open>Stage 3 (lines 160 to 163): a feature score above 90 marks the file directly.\<close>

definition overrideHigh :: "DetectionResult \<Rightarrow> DetectionResult" where
  "overrideHigh r =
     (if FeatureScore r > 90 then r\<lparr>IsWebshell := True, RiskLevel := RiskLevelHigh\<rparr> else r)"

text \<open>
  Stage 4 (lines 166 to 172): nothing found by feature matching or behaviour analysis
  forces the verdict to safe and caps the total at 30.
\<close>

definition overrideSafe :: "DetectionResult \<Rightarrow> DetectionResult" where
  "overrideSafe r =
     (if FeatureScore r = 0 \<and> Behaviors r = []
      then (let r' = r\<lparr>RiskLevel := RiskLevelSafe, IsWebshell := False\<rparr>
            in if TotalScore r' > 30 then r'\<lparr>TotalScore := 30\<rparr> else r')
      else r)"

definition calculateTotalScore :: "Config \<Rightarrow> DetectionResult \<Rightarrow> DetectionResult" where
  "calculateTotalScore cfg r = overrideSafe (overrideHigh (classifyRisk (blendScores cfg r)))"

section \<open>Errors\<close>

text \<open>
  Every \<open>fmt.Errorf\<close> of the modelled functions is a constructor; wrapping
  (\<open>"...: %v", err\<close>) keeps the wrapped error as an argument. The two run-time panics that
  the modelled code can raise (an index out of range, a method called through a nil
  pointer) are constructors as well: no function of the repository recovers from a panic,
  so a panic travels to the top like an error that nobody handles.
\<close>

datatype error =
    FailedToReadFile
  | FileSizeExceeds
  | YaraMatchingFailed error
  | FeatureMatchingFailed error
  | FailedToCreateSandbox
  | FailedToCopyToSandbox
  | FailedToAnalyzeBehavior string
  | FailedToExtractFeatures error
  | InvalidFeatureCount int nat
  | FailedToPredict error
  | FileNotFound
  | DetectionFailed error
  | WebshellDetected string
  | AlreadyRunning
  | ScanFailed error
  | FailedToOpenModel
  | FailedToDecodeModel
  | PanicIndexOutOfRange nat nat
  | PanicNilPointer

fun is_panic :: "error \<Rightarrow> bool" where
  "is_panic (PanicIndexOutOfRange i n) = True"
| "is_panic PanicNilPointer = True"
| "is_panic _ = False"

section \<open>Strings\<close>

text \<open>
  \<open>strings.Contains s substr\<close>: some suffix of \<open>s\<close> starts with \<open>substr\<close>.
\<close>

fun Contains :: "string \<Rightarrow> string \<Rightarrow> bool" where
  "Contains [] substr = (substr = [])"
| "Contains (c # cs) substr = (prefix substr (c # cs) \<or> Contains cs substr)"

text \<open>
  \<open>strings.Count s substr\<close> for a non-empty \<open>substr\<close>: the number of non-overlapping
  occurrences, found from the left. (For an empty \<open>substr\<close> Go returns the number of
  code points plus one; no caller in the repository passes the empty string, and the model
  returns 0 there.)
\<close>

function Count :: "string \<Rightarrow> string \<Rightarrow> nat" where
  "Count s substr =
     (if substr = [] \<or> s = [] then 0
      else if prefix substr s then Suc (Count (drop (length substr) s) substr)
      else Count (tl s) substr)"
  by pat_completeness auto
termination
  by (relation "measure (\<lambda>(s, substr). length s)") auto

declare Count.simps [simp del]

text \<open>
  \<open>strings.ToLower\<close> on the ASCII letters. The trace text that it is applied to is
  produced by strace, which prints bytes outside printable ASCII as escapes.
\<close>

definition lowerChar :: "char \<Rightarrow> char" where
  "lowerChar c =
     (case map_of (zip ''ABCDEFGHIJKLMNOPQRSTUVWXYZ'' ''abcdefghijklmnopqrstuvwxyz'') c of
        None \<Rightarrow> c | Some l \<Rightarrow> l)"

definition ToLower :: "string \<Rightarrow> string" where
  "ToLower s = map lowerChar s"

text \<open>\<open>strings.Join elems sep\<close>.\<close>

fun Join :: "string list \<Rightarrow> string \<Rightarrow> string" where
  "Join [] sep = []"
| "Join [x] sep = x"
| "Join (x # y # ys) sep = x @ sep @ Join (y # ys) sep"

section \<open>The model file (pkg/mlmodel/model_loader.go)\<close>

text \<open>
  \<open>ModelData\<close> is what \<open>json.Unmarshal\<close> fills from the model file; \<open>Model\<close> is the
  loaded model. \<open>FeatureCount\<close> is a Go \<open>int\<close> that the file sets freely. The time stamp
  and the lock of \<open>Model\<close> play no part in a prediction and are left out.
\<close>

record ModelData =
  Weights :: "real list"
  Threshold :: real
  FeatureCount :: int

record Model =
  Path :: string
  FeatureCount :: int
  ModelData :: ModelData
  Threshold :: real

section \<open>The outside world\<close>

text \<open>
  What the detector obtains from outside the repository, as functions of its arguments:
  the file system, the regular-expression engine, the YARA library walking a rule directory,
  the traced execution in the sandbox and the JSON decoder of the model file.

  One entry of \<open>filepath.Walk\<close> over a rule directory, as the callback of
  \<open>matchYaraRules\<close> sees it: the walk reports an error for the entry; the entry is a
  directory or has no \<open>.yar\<close> suffix; it is a rule file for which creating the compiler,
  opening, adding, compiling or scanning fails; or it is a rule file that was scanned, with
  the (rule name, tags) pairs of its matches.
\<close>

datatype walk_entry =
    EntryError
  | EntrySkipped
  | RuleFailed
  | RuleScanned "(string \<times> string list) list"

text \<open>
  The traced run of \<open>behaviorAnalyze\<close>: the sandbox directory cannot be created; the file
  cannot be written into it; \<open>CombinedOutput\<close> returns an error with its message and the
  output gathered so far; or it returns the output alone.
\<close>

datatype trace_outcome =
    MkdirTempFails
  | WriteFileFails
  | RunError string string
  | RunOk string

record World =
  ReadFile :: "string \<Rightarrow> string option"
  Stat :: "string \<Rightarrow> bool"
  MatchString :: "pattern \<Rightarrow> string \<Rightarrow> bool"
  Walk :: "string \<Rightarrow> string \<Rightarrow> string \<Rightarrow> walk_entry list"
  Strace :: "string \<Rightarrow> string \<Rightarrow> trace_outcome"
  Unmarshal :: "string \<Rightarrow> ModelData option"

section \<open>Feature matching (featureMatch, matchRegexPatterns, matchYaraRules)\<close>

record FeatureMatchResult =
  Score :: real
  Matches :: "feature list"
  YaraMatches :: "feature list"
  RegexMatches :: "feature list"

definition WebshellPatterns :: "(pattern \<times> real) list" where
  "WebshellPatterns =
     [(DangerousCall, 100), (DynamicExec, 80), (EncodedPayload, 100),
      (InputAssign, 80), (FileBackdoor, 80)]"

text \<open>The loop of \<open>matchRegexPatterns\<close> over the pattern table, with its two accumulators.\<close>

fun regexLoop ::
  "World \<Rightarrow> string \<Rightarrow> (pattern \<times> real) list \<Rightarrow> real \<Rightarrow> feature list \<Rightarrow> real \<times> feature list"
where
  "regexLoop w fileStr [] score matches = (score, matches)"
| "regexLoop w fileStr ((p, sc) # ps) score matches =
     (if MatchString w p fileStr
      then regexLoop w fileStr ps (score + sc) (matches @ [PatternText p])
      else regexLoop w fileStr ps score matches)"

definition matchRegexPatterns :: "World \<Rightarrow> string \<Rightarrow> real \<times> feature list" where
  "matchRegexPatterns w content = regexLoop w content WebshellPatterns 0 []"

text \<open>
  The inner loop over the matches of one rule file: 50 for each, and the formatted
  \<open>"<rule> (<tags>)"\<close> appended.
\<close>

definition formatMatch :: "string \<times> string list \<Rightarrow> feature" where
  "formatMatch m = RuleText (fst m @ '' ('' @ Join (snd m) '', '' @ '')'')"

fun matchLoop ::
  "(string \<times> string list) list \<Rightarrow> real \<Rightarrow> feature list \<Rightarrow> real \<times> feature list"
where
  "matchLoop [] score matches = (score, matches)"
| "matchLoop (m # ms) score matches = matchLoop ms (score + 50) (matches @ [formatMatch m])"

text \<open>
  One \<open>filepath.Walk\<close>: the callback returning an error ends the walk. What was added
  to \<open>score\<close> and \<open>matches\<close> before stays, since the callback writes to the variables of
  the enclosing function. The flag says whether the walk returned an error, which
  \<open>matchYaraRules\<close> only prints.
\<close>

fun walkLoop ::
  "walk_entry list \<Rightarrow> real \<Rightarrow> feature list \<Rightarrow> (real \<times> feature list) \<times> bool"
where
  "walkLoop [] score matches = ((score, matches), False)"
| "walkLoop (EntryError # es) score matches = ((score, matches), True)"
| "walkLoop (RuleFailed # es) score matches = ((score, matches), True)"
| "walkLoop (EntrySkipped # es) score matches = walkLoop es score matches"
| "walkLoop (RuleScanned ms # es) score matches =
     (case matchLoop ms score matches of (score', matches') \<Rightarrow> walkLoop es score' matches')"

fun ruleTypeLoop ::
  "World \<Rightarrow> string \<Rightarrow> string \<Rightarrow> string list \<Rightarrow> real \<Rightarrow> feature list \<Rightarrow> real \<times> feature list"
where
  "ruleTypeLoop w dir content [] score matches = (score, matches)"
| "ruleTypeLoop w dir content (ruleType # ts) score matches =
     (case fst (walkLoop (Walk w dir ruleType content) score matches) of
        (score', matches') \<Rightarrow> ruleTypeLoop w dir content ts score' matches')"

definition matchYaraRules :: "Config \<Rightarrow> World \<Rightarrow> string \<Rightarrow> error + (real \<times> feature list)" where
  "matchYaraRules cfg w content =
     (case ruleTypeLoop w (Yara_RulesDir cfg) content (Yara_RuleTypes cfg) 0 [] of
        (score, matches) \<Rightarrow> Inr (if score > 100 then 100 else score, matches))"

definition featureMatch :: "Config \<Rightarrow> World \<Rightarrow> string \<Rightarrow> error + FeatureMatchResult" where
  "featureMatch cfg w content =
     (if int (length content) > Yara_MaxFileSize cfg then Inl FileSizeExceeds
      else
        (case matchRegexPatterns w content of (regexScore, regexMatches) \<Rightarrow>
           (let result = \<lparr>Score = 0 + regexScore, Matches = [], YaraMatches = [],
                          RegexMatches = regexMatches\<rparr>
            in if Yara_Enabled cfg
               then (case matchYaraRules cfg w content of
                       Inl err \<Rightarrow> Inl (YaraMatchingFailed err)
                     | Inr (yaraScore, yaraMatches) \<Rightarrow>
                         (let result = result\<lparr>YaraMatches := yaraMatches,
                                               Score := Score result + yaraScore\<rparr>;
                              result = result\<lparr>Matches := RegexMatches result @ YaraMatches result\<rparr>
                          in Inr (if Score result > 100 then result\<lparr>Score := 100\<rparr> else result)))
               else (let result = result\<lparr>Matches := RegexMatches result @ YaraMatches result\<rparr>
                     in Inr (if Score result > 100 then result\<lparr>Score := 100\<rparr> else result)))))"

section \<open>Behaviour analysis (behaviorAnalyze)\<close>

text \<open>
  The fields \<open>Score\<close> and \<open>Behaviors\<close> of \<open>BehaviorAnalysisResult\<close> carry a prefix here,
  since \<open>FeatureMatchResult\<close> and \<open>DetectionResult\<close> have fields of the same names.
\<close>

record BehaviorAnalysisResult =
  BScore :: real
  BBehaviors :: "string list"

text \<open>
  The table \<open>dangerousFileOps\<close>. It is a Go map, whose iteration order is not fixed: the
  order decides only the order of the behaviour descriptions, and the table is listed here
  in source order.
\<close>

definition dangerousFileOps :: "(string \<times> real \<times> string) list" where
  "dangerousFileOps =
     [(''unlink('', 30, ''Attempted to delete files''),
      (''rmdir('', 20, ''Attempted to delete directories''),
      (''chmod('', 20, ''Attempted to change file permissions''),
      (''chown('', 20, ''Attempted to change file ownership''),
      (''symlink('', 15, ''Attempted to create symbolic links''),
      (''rename('', 10, ''Attempted to rename files'')]"

fun fileOpsLoop ::
  "string \<Rightarrow> (string \<times> real \<times> string) list \<Rightarrow> real \<Rightarrow> string list \<Rightarrow> real \<times> string list"
where
  "fileOpsLoop out [] score behaviors = (score, behaviors)"
| "fileOpsLoop out ((pat, sc, behavior) # rest) score behaviors =
     (if Contains out pat
      then (if \<not> Contains out ''/tmp/'' \<and> \<not> Contains out ''/var/cache/''
            then fileOpsLoop out rest (score + \<bar>sc\<bar>) (behaviors @ [behavior])
            else fileOpsLoop out rest score behaviors)
      else fileOpsLoop out rest score behaviors)"

definition connectCheck :: "string \<Rightarrow> real \<Rightarrow> string list \<Rightarrow> real \<times> string list" where
  "connectCheck out score behaviors =
     (if Contains out ''connect(''
      then (if \<not> Contains out ''127.0.0.1'' \<and> \<not> Contains out ''localhost''
            then (score + 20,
                  behaviors @ [''Attempted to establish external network connection''])
            else (score, behaviors))
      else (score, behaviors))"

definition dangerousCommands :: "string list" where
  "dangerousCommands =
     [''sh'', ''bash'', ''cmd'', ''powershell'', ''nc'', ''netcat'', ''curl'', ''wget'',
      ''telnet'']"

definition dquote :: string where
  "dquote = [CHR 0x22]"

fun commandsLoop :: "string \<Rightarrow> string list \<Rightarrow> real \<Rightarrow> string list \<Rightarrow> real \<times> string list" where
  "commandsLoop out [] score behaviors = (score, behaviors)"
| "commandsLoop out (cmd # rest) score behaviors =
     (if Contains (ToLower out) (''execve('' @ dquote @ cmd @ dquote)
      then commandsLoop out rest (score + 25)
             (behaviors @ [''Attempted to execute dangerous command: '' @ cmd])
      else commandsLoop out rest score behaviors)"

definition sensitiveFiles :: "(string \<times> real \<times> string) list" where
  "sensitiveFiles =
     [(''/etc/passwd'', 15, ''Attempted to access password file''),
      (''/etc/shadow'', 25, ''Attempted to access shadow password file''),
      (''/etc/hosts'', 10, ''Attempted to access hosts file''),
      (''/proc/'', 15, ''Attempted to access process information''),
      (''/dev/'', 20, ''Attempted to access device files'')]"

fun sensitiveLoop ::
  "string \<Rightarrow> (string \<times> real \<times> string) list \<Rightarrow> real \<Rightarrow> string list \<Rightarrow> real \<times> string list"
where
  "sensitiveLoop out [] score behaviors = (score, behaviors)"
| "sensitiveLoop out ((file, sc, behavior) # rest) score behaviors =
     (if Contains out (''open('' @ dquote @ file)
      then sensitiveLoop out rest (score + sc) (behaviors @ [behavior])
      else sensitiveLoop out rest score behaviors)"

text \<open>
  Lines 54 to 127 of \<open>behaviorAnalyze\<close>: the interpretation of the captured trace text.
\<close>

definition analyzeTrace :: "string \<Rightarrow> BehaviorAnalysisResult" where
  "analyzeTrace straceOutput =
     (case fileOpsLoop straceOutput dangerousFileOps 0 [] of (s1, b1) \<Rightarrow>
      case connectCheck straceOutput s1 b1 of (s2, b2) \<Rightarrow>
      case commandsLoop straceOutput dangerousCommands s2 b2 of (s3, b3) \<Rightarrow>
      case sensitiveLoop straceOutput sensitiveFiles s3 b3 of (s4, b4) \<Rightarrow>
        (let s5 = (if b4 = [] then 0 else s4);
             s6 = (if s5 > 100 then 100 else s5)
         in \<lparr>BScore = s6, BBehaviors = b4\<rparr>))"

definition behaviorAnalyze :: "World \<Rightarrow> string \<Rightarrow> string \<Rightarrow> error + BehaviorAnalysisResult" where
  "behaviorAnalyze w filePath content =
     (case Strace w filePath content of
        MkdirTempFails \<Rightarrow> Inl FailedToCreateSandbox
      | WriteFileFails \<Rightarrow> Inl FailedToCopyToSandbox
      | RunError msg out \<Rightarrow>
          (if \<not> Contains msg ''exit status'' then Inl (FailedToAnalyzeBehavior msg)
           else Inr (analyzeTrace out))
      | RunOk out \<Rightarrow> Inr (analyzeTrace out))"

section \<open>Machine-learning score (LoadModel, Predict, extractFeatures, mlDetect)\<close>

definition LoadModel :: "World \<Rightarrow> string \<Rightarrow> error + Model" where
  "LoadModel w modelPath =
     (case ReadFile w modelPath of
        None \<Rightarrow> Inl FailedToOpenModel
      | Some file \<Rightarrow>
          (case Unmarshal w file of
             None \<Rightarrow> Inl FailedToDecodeModel
           | Some modelData \<Rightarrow>
               Inr \<lparr>Path = modelPath, FeatureCount = ModelData.FeatureCount modelData,
                    ModelData = modelData, Threshold = ModelData.Threshold modelData\<rparr>))"

text \<open>
  The loop of \<open>Predict\<close>: \<open>for i, feature := range features\<close> reads \<open>Weights[i]\<close>, and Go
  panics at the first index that is not below the length of the weight slice.
\<close>

fun predictLoop :: "real list \<Rightarrow> real list \<Rightarrow> nat \<Rightarrow> real \<Rightarrow> error + real" where
  "predictLoop [] ws i score = Inr score"
| "predictLoop (feature # fs) ws i score =
     (if i < length ws then predictLoop fs ws (Suc i) (score + feature * ws ! i)
      else Inl (PanicIndexOutOfRange i (length ws)))"

text \<open>
  \<open>Predict\<close> is a method on \<open>*Model\<close>; \<open>main\<close> goes on with a nil model when loading
  fails, and the first statement of the method then dereferences nil.
\<close>

definition Predict :: "Model option \<Rightarrow> real list \<Rightarrow> error + real" where
  "Predict m features =
     (case m of
        None \<Rightarrow> Inl PanicNilPointer
      | Some m \<Rightarrow>
          (if int (length features) \<noteq> Model.FeatureCount m
           then Inl (InvalidFeatureCount (Model.FeatureCount m) (length features))
           else (case predictLoop features (Weights (Model.ModelData m)) 0 0 of
                   Inl e \<Rightarrow> Inl e
                 | Inr score \<Rightarrow>
                     Inr (if score > 1 then 1 else if score < 0 then 0 else score))))"

fun countLoop :: "string \<Rightarrow> string list \<Rightarrow> nat \<Rightarrow> nat" where
  "countLoop fileStr [] cnt = cnt"
| "countLoop fileStr (f # fs) cnt = countLoop fileStr fs (cnt + Count fileStr f)"

definition extractFeatures :: "string \<Rightarrow> error + real list" where
  "extractFeatures content =
     Inr [real (length content),
          real (countLoop content
                  [''eval('', ''system('', ''exec('', ''shell_exec('', ''passthru(''] 0),
          real (Count content ''base64_decode''),
          real (countLoop content [''$_POST'', ''$_GET'', ''$_REQUEST'', ''$_SERVER''] 0),
          real (countLoop content
                  [''chmod('', ''chown('', ''fopen('', ''file_put_contents(''] 0)]"

definition mlDetect :: "Model option \<Rightarrow> string \<Rightarrow> error + real" where
  "mlDetect mlModel content =
     (case extractFeatures content of
        Inl err \<Rightarrow> Inl (FailedToExtractFeatures err)
      | Inr features \<Rightarrow>
          (case Predict mlModel features of
             Inl err \<Rightarrow> (if is_panic err then Inl err else Inl (FailedToPredict err))
           | Inr score \<Rightarrow> Inr (score * 100)))"

section \<open>Detect\<close>

text \<open>
  The detector holds the configuration and the model. A failed behaviour analysis or ML
  detection is printed as a warning and leaves the zero score; a panic is not an error
  value and ends the call.
\<close>

record Detector =
  config :: Config
  mlModel :: "Model option"

definition newResult :: "string \<Rightarrow> DetectionResult" where
  "newResult filePath =
     \<lparr>FilePath = filePath, IsWebshell = False, RiskLevel = RiskLevelUnset, FeatureScore = 0,
      BehaviorScore = 0, MLScore = 0, MatchedFeatures = [], Behaviors = [], TotalScore = 0\<rparr>"

definition detectBehavior :: "Detector \<Rightarrow> World \<Rightarrow> string \<Rightarrow> string \<Rightarrow> DetectionResult \<Rightarrow> DetectionResult" where
  "detectBehavior d w filePath content result =
     (if BehaviorAnalysis_Enabled (config d)
      then (case behaviorAnalyze w filePath content of
              Inl err \<Rightarrow> result
            | Inr behaviorResult \<Rightarrow>
                result\<lparr>BehaviorScore := BScore behaviorResult,
                       Behaviors := BBehaviors behaviorResult\<rparr>)
      else result)"

definition detectML :: "Detector \<Rightarrow> string \<Rightarrow> DetectionResult \<Rightarrow> error + DetectionResult" where
  "detectML d content result =
     (if MachineLearning_Enabled (config d)
      then (case mlDetect (mlModel d) content of
              Inl err \<Rightarrow> (if is_panic err then Inl err else Inr result)
            | Inr mlScore \<Rightarrow> Inr (result\<lparr>MLScore := mlScore\<rparr>))
      else Inr result)"

definition Detect :: "Detector \<Rightarrow> World \<Rightarrow> string \<Rightarrow> error + DetectionResult" where
  "Detect d w filePath =
     (case ReadFile w filePath of
        None \<Rightarrow> Inl FailedToReadFile
      | Some content \<Rightarrow>
          (case featureMatch (config d) w content of
             Inl err \<Rightarrow> Inl (FeatureMatchingFailed err)
           | Inr featureResult \<Rightarrow>
               (let result = (newResult filePath)
                       \<lparr>FeatureScore := Score featureResult,
                        MatchedFeatures := Matches featureResult\<rparr>;
                    result = detectBehavior d w filePath content result
                in (case detectML d content result of
                      Inl err \<Rightarrow> Inl err
                    | Inr result \<Rightarrow> Inr (calculateTotalScore (config d) result)))))"

section \<open>Scanners (internal/scanner) and the manual entry point (cmd/main.go)\<close>

text \<open>
  An \<open>error\<close> return value is \<open>None\<close> for nil. Printing the result and storing it in the
  result database never change what \<open>Scan\<close> or \<open>Start\<close> return (a storage failure is
  logged), so they are not part of the model.
\<close>

record BaseScanner =
  detector :: Detector
  isRunning :: bool

record ManualScanner = BaseScanner +
  filePath :: string

definition NewManualScanner :: "Config \<Rightarrow> Model option \<Rightarrow> string \<Rightarrow> ManualScanner" where
  "NewManualScanner cfg model path =
     \<lparr>detector = \<lparr>config = cfg, mlModel = model\<rparr>, isRunning = False, filePath = path\<rparr>"

definition Scan :: "'a BaseScanner_scheme \<Rightarrow> World \<Rightarrow> string \<Rightarrow> error option" where
  "Scan s w path =
     (if \<not> Stat w path then Some FileNotFound
      else (case Detect (detector s) w path of
              Inl err \<Rightarrow> (if is_panic err then Some err else Some (DetectionFailed err))
            | Inr detectionResult \<Rightarrow>
                (if IsWebshell detectionResult then Some (WebshellDetected path) else None)))"

definition Start :: "ManualScanner \<Rightarrow> World \<Rightarrow> error option \<times> ManualScanner" where
  "Start s w =
     (if isRunning s then (Some AlreadyRunning, s)
      else (let s = s\<lparr>isRunning := True\<rparr>
            in (case Detect (detector s) w (filePath s) of
                  Inl err \<Rightarrow>
                    (if is_panic err then (Some err, s)
                     else (Some (ScanFailed err), s\<lparr>isRunning := False\<rparr>))
                | Inr detectionResult \<Rightarrow> (None, s\<lparr>isRunning := False\<rparr>))))"

definition Stop :: "ManualScanner \<Rightarrow> error option \<times> ManualScanner" where
  "Stop s = (if \<not> isRunning s then (None, s) else (None, s\<lparr>isRunning := False\<rparr>))"

text \<open>
  How \<open>handleManualScan\<close> ends: it returns after printing the elapsed time, it ends the
  process through \<open>log.Fatalf\<close>, or a panic ends the process.
\<close>

datatype exit = Completed | Fatal error | Crashed error

definition handleManualScan :: "Config \<Rightarrow> Model option \<Rightarrow> World \<Rightarrow> string \<Rightarrow> exit" where
  "handleManualScan cfg model w path =
     (let manualScanner = NewManualScanner cfg model path
      in (case Start manualScanner w of
            (Some err, manualScanner) \<Rightarrow> (if is_panic err then Crashed err else Fatal err)
          | (None, manualScanner) \<Rightarrow>
              (case Stop manualScanner of
                 (Some err, manualScanner) \<Rightarrow> Fatal err
               | (None, manualScanner) \<Rightarrow> Completed)))"

section \<open>The blend as the specification words it\<close>

text \<open>
  The enabled methods with their weights and the scores that enter the average: the
  feature score always, the behaviour score (0 when no behaviour was found) when behaviour
  analysis is enabled, the ML score (a tenth of it when the feature score is 0 and no
  behaviour was found) when ML is enabled. The weighted average divides the sum of weight
  times score by the sum of the weights.
\<close>

definition spec_enabled_methods :: "Config \<Rightarrow> DetectionResult \<Rightarrow> (real \<times> real) list" where
  "spec_enabled_methods cfg r =
     [(0.5, FeatureScore r)] @
     (if BehaviorAnalysis_Enabled cfg
      then [(0.3, if Behaviors r = [] then 0 else BehaviorScore r)] else []) @
     (if MachineLearning_Enabled cfg
      then [(0.2, if FeatureScore r = 0 \<and> Behaviors r = [] then 0.1 * MLScore r else MLScore r)]
      else [])"

definition spec_weighted_average :: "(real \<times> real) list \<Rightarrow> real" where
  "spec_weighted_average ms =
     sum_list (map (\<lambda>(weight, score). weight * score) ms) / sum_list (map fst ms)"

section \<open>Example inputs\<close>

definition config_all :: Config where
  "config_all =
     \<lparr>BehaviorAnalysis_Enabled = True, MachineLearning_Enabled = True, Yara_Enabled = True,
      Yara_RulesDir = ''rules'', Yara_RuleTypes = [''webshells'', ''crypto''],
      Yara_MaxFileSize = 10485760\<rparr>"

definition result_of_scores :: "real \<Rightarrow> real \<Rightarrow> real \<Rightarrow> string list \<Rightarrow> DetectionResult" where
  "result_of_scores f b m bs =
     (newResult ''upload.php'')
       \<lparr>FeatureScore := f, BehaviorScore := b, MLScore := m, Behaviors := bs\<rparr>"

definition model_five :: Model where
  "model_five =
     \<lparr>Path = ''model.json'', FeatureCount = 5,
      ModelData = \<lparr>Weights = [0.001, 0.2, 0.2, 0.1, 0.1], Threshold = 0.5, FeatureCount = 5\<rparr>,
      Threshold = 0.5\<rparr>"

definition detector_all :: Detector where
  "detector_all = \<lparr>config = config_all, mlModel = Some model_five\<rparr>"

text \<open>
  A world with a harmless file: no pattern matches, the rule directories hold a file without
  matches and a file that does not compile, and the trace shows nothing suspicious.
\<close>

definition world_clean :: World where
  "world_clean =
     \<lparr>ReadFile = (\<lambda>path. Some ''<?php echo 1; ?>''),
      Stat = (\<lambda>path. True),
      MatchString = (\<lambda>p s. False),
      Walk = (\<lambda>dir ruleType content. [EntrySkipped, RuleScanned [], RuleFailed]),
      Strace = (\<lambda>path content. RunOk ''exit_group(0) = ?''),
      Unmarshal = (\<lambda>file. None)\<rparr>"



text \<open>
  A size limit of four bytes, and a world whose rule directories cannot be walked or hold
  rule files that fail.
\<close>

definition config_tiny :: Config where
  "config_tiny = config_all\<lparr>Yara_MaxFileSize := 4\<rparr>"

definition world_broken_rules :: World where
  "world_broken_rules =
     world_clean\<lparr>Walk := (\<lambda>dir ruleType content.
        if ruleType = ''webshells'' then [EntryError] else [EntrySkipped, RuleFailed])\<rparr>"

text \<open>
  A model file that declares five features and lists three weights, and the world that
  holds it.
\<close>

definition short_model_data :: ModelData where
  "short_model_data = \<lparr>Weights = [0.1, 0.2, 0.3], Threshold = 0.5, FeatureCount = 5\<rparr>"

definition world_short_model :: World where
  "world_short_model =
     world_clean\<lparr>ReadFile := (\<lambda>path. Some ''model file''),
                 Unmarshal := (\<lambda>file. Some short_model_data)\<rparr>"

definition short_model :: Model where
  "short_model =
     \<lparr>Path = ''model.json'', FeatureCount = 5, ModelData = short_model_data, Threshold = 0.5\<rparr>"

text \<open>
  A world with a one-line webshell: the dangerous-call pattern matches it, and its trace
  shows the script deleting a file of the web root.
\<close>

definition shell_content :: string where
  "shell_content = ''<?php eval($_POST[1]); ?>''"

definition shell_trace :: string where
  "shell_trace = ''unlink('' @ dquote @ ''/var/www/a.php'' @ dquote @ '') = 0''"

definition world_shell :: World where
  "world_shell =
     world_clean\<lparr>ReadFile := (\<lambda>path. Some shell_content),
                 MatchString := (\<lambda>p s. p = DangerousCall),
                 Strace := (\<lambda>path content. RunError ''exit status 255'' shell_trace)\<rparr>"

definition shell_result :: DetectionResult where
  "shell_result =
     \<lparr>FilePath = ''shell.php'', IsWebshell = True, RiskLevel = RiskLevelHigh,
      FeatureScore = 100, BehaviorScore = 30, MLScore = 32.5,
      MatchedFeatures = [PatternText DangerousCall],
      Behaviors = [''Attempted to delete files''], TotalScore = 65.5\<rparr>"

section \<open>The file-operation rule as the specification words it\<close>






section \<open>Properties of the composite scoring\<close>

lemmas weights_defs = weights_feature_def weights_behavior_def weights_ml_def

lemma blendScores_fields [simp]:
  "FeatureScore (blendScores cfg r) = FeatureScore r"
  "Behaviors (blendScores cfg r) = Behaviors r"
  "MatchedFeatures (blendScores cfg r) = MatchedFeatures r"
  by (simp_all add: blendScores_def blendBehavior_def blendML_def Let_def)

lemma classifyRisk_fields [simp]:
  "FeatureScore (classifyRisk r) = FeatureScore r"
  "Behaviors (classifyRisk r) = Behaviors r"
  "MatchedFeatures (classifyRisk r) = MatchedFeatures r"
  "TotalScore (classifyRisk r) = TotalScore r"
  by (simp_all add: classifyRisk_def)

lemma overrideHigh_fields [simp]:
  "FeatureScore (overrideHigh r) = FeatureScore r"
  "Behaviors (overrideHigh r) = Behaviors r"
  "MatchedFeatures (overrideHigh r) = MatchedFeatures r"
  "TotalScore (overrideHigh r) = TotalScore r"
  by (simp_all add: overrideHigh_def)

lemma overrideSafe_fields [simp]:
  "FeatureScore (overrideSafe r) = FeatureScore r"
  "Behaviors (overrideSafe r) = Behaviors r"
  "MatchedFeatures (overrideSafe r) = MatchedFeatures r"
  by (simp_all add: overrideSafe_def Let_def)

lemma calculateTotalScore_fields [simp]:
  "FeatureScore (calculateTotalScore cfg r) = FeatureScore r"
  "Behaviors (calculateTotalScore cfg r) = Behaviors r"
  "MatchedFeatures (calculateTotalScore cfg r) = MatchedFeatures r"
  by (simp_all add: calculateTotalScore_def)



text \<open>
  Claim C2. Whatever the configuration and whatever the behaviour score, the ML score and
  the blended total are, a result whose feature score is above 90 leaves
  \<open>calculateTotalScore\<close> with risk level HIGH and marked as a webshell.
\<close>

theorem high_feature_score_forces_high:
  "FeatureScore r > 90 \<Longrightarrow>
     RiskLevel (calculateTotalScore cfg r) = RiskLevelHigh \<and>
     IsWebshell (calculateTotalScore cfg r)"
  by (simp add: calculateTotalScore_def overrideSafe_def overrideHigh_def)

text \<open>
  The instance: feature score 95 with nothing from behaviour analysis or ML. The blend is
  47.5, which the thresholds alone would call LOW.
\<close>

theorem high_feature_score_forces_high_witness:
  "FeatureScore (result_of_scores 95 0 0 []) > 90 \<and>
   TotalScore (calculateTotalScore config_all (result_of_scores 95 0 0 [])) = 47.5 \<and>
   RiskLevel (calculateTotalScore config_all (result_of_scores 95 0 0 [])) = RiskLevelHigh \<and>
   IsWebshell (calculateTotalScore config_all (result_of_scores 95 0 0 []))"
proof -
  have h: "FeatureScore (result_of_scores 95 0 0 []) > 90"
    by (simp add: result_of_scores_def)
  have t: "TotalScore (calculateTotalScore config_all (result_of_scores 95 0 0 [])) = 47.5"
    by (simp add: calculateTotalScore_def overrideSafe_def overrideHigh_def classifyRisk_def
        blendScores_def blendBehavior_def blendML_def Let_def weights_defs config_all_def
        result_of_scores_def newResult_def)
  from h t high_feature_score_forces_high [OF h, of config_all] show ?thesis by simp
qed

text \<open>
  Claim C3. On the result of the blend, the \<open>switch\<close> gives: total at least 85, HIGH and
  webshell; total in [70, 85), MEDIUM and webshell exactly when the feature score is above
  80; total in [40, 70), LOW and no webshell; total below 40, SAFE and no webshell. This is
  the state before the two overrides, and it is the final result when neither override
  applies (feature score at most 90, and not both feature score 0 and no behaviours).
\<close>

theorem classification_thresholds:
  fixes cfg r
  defines "b \<equiv> blendScores cfg r"
  defines "c \<equiv> classifyRisk b"
  shows "(TotalScore b \<ge> 85 \<longrightarrow> RiskLevel c = RiskLevelHigh \<and> IsWebshell c) \<and>
         (70 \<le> TotalScore b \<and> TotalScore b < 85 \<longrightarrow>
            RiskLevel c = RiskLevelMedium \<and> IsWebshell c = (FeatureScore b > 80)) \<and>
         (40 \<le> TotalScore b \<and> TotalScore b < 70 \<longrightarrow>
            RiskLevel c = RiskLevelLow \<and> \<not> IsWebshell c) \<and>
         (TotalScore b < 40 \<longrightarrow> RiskLevel c = RiskLevelSafe \<and> \<not> IsWebshell c) \<and>
         (\<not> FeatureScore r > 90 \<and> \<not> (FeatureScore r = 0 \<and> Behaviors r = []) \<longrightarrow>
            calculateTotalScore cfg r = c)"
  unfolding b_def c_def
  by (simp add: classifyRisk_def calculateTotalScore_def overrideHigh_def overrideSafe_def)

text \<open>
  One instance for each of the four ranges, all with every method enabled and one observed
  behaviour: totals 88, 74.5, 50 and 7.
\<close>

lemma example_totals:
  "TotalScore (blendScores config_all (result_of_scores 90 90 80 [''b''])) = 88"
  "TotalScore (blendScores config_all (result_of_scores 85 80 40 [''b''])) = 74.5"
  "TotalScore (blendScores config_all (result_of_scores 50 50 50 [''b''])) = 50"
  "TotalScore (blendScores config_all (result_of_scores 10 0 10 [''b''])) = 7"
  by (simp_all add: blendScores_def blendBehavior_def blendML_def Let_def weights_defs
      config_all_def result_of_scores_def newResult_def)

theorem classification_thresholds_witness:
  "TotalScore (blendScores config_all (result_of_scores 90 90 80 [''b''])) \<ge> 85 \<and>
   RiskLevel (calculateTotalScore config_all (result_of_scores 90 90 80 [''b''])) = RiskLevelHigh \<and>
   IsWebshell (calculateTotalScore config_all (result_of_scores 90 90 80 [''b''])) \<and>
   70 \<le> TotalScore (blendScores config_all (result_of_scores 85 80 40 [''b''])) \<and>
   TotalScore (blendScores config_all (result_of_scores 85 80 40 [''b''])) < 85 \<and>
   RiskLevel (calculateTotalScore config_all (result_of_scores 85 80 40 [''b''])) = RiskLevelMedium \<and>
   IsWebshell (calculateTotalScore config_all (result_of_scores 85 80 40 [''b''])) \<and>
   40 \<le> TotalScore (blendScores config_all (result_of_scores 50 50 50 [''b''])) \<and>
   TotalScore (blendScores config_all (result_of_scores 50 50 50 [''b''])) < 70 \<and>
   RiskLevel (calculateTotalScore config_all (result_of_scores 50 50 50 [''b''])) = RiskLevelLow \<and>
   \<not> IsWebshell (calculateTotalScore config_all (result_of_scores 50 50 50 [''b''])) \<and>
   TotalScore (blendScores config_all (result_of_scores 10 0 10 [''b''])) < 40 \<and>
   RiskLevel (calculateTotalScore config_all (result_of_scores 10 0 10 [''b''])) = RiskLevelSafe \<and>
   \<not> IsWebshell (calculateTotalScore config_all (result_of_scores 10 0 10 [''b'']))"
proof -
  have f: "FeatureScore (result_of_scores x y z bs) = x"
    and b: "Behaviors (result_of_scores x y z bs) = bs" for x y z bs
    by (simp_all add: result_of_scores_def)
  show ?thesis
    using classification_thresholds [of config_all "result_of_scores 90 90 80 [''b'']"]
      classification_thresholds [of config_all "result_of_scores 85 80 40 [''b'']"]
      classification_thresholds [of config_all "result_of_scores 50 50 50 [''b'']"]
      classification_thresholds [of config_all "result_of_scores 10 0 10 [''b'']"]
    by (simp add: example_totals f b)
qed

text \<open>
  Claim C4. The total that the blend stores is the weighted average over the enabled
  methods as the specification words it: weights 0.5, 0.3 and 0.2, numerator and
  denominator over the enabled methods only, the behaviour score taken as 0 without
  behaviours and the ML score taken at a tenth when the feature score is 0 and there are no
  behaviours.
\<close>

theorem blend_is_weighted_average:
  "TotalScore (blendScores cfg r) = spec_weighted_average (spec_enabled_methods cfg r)"
  by (simp add: blendScores_def blendBehavior_def blendML_def Let_def weights_defs
      spec_weighted_average_def spec_enabled_methods_def)

text \<open>
  Claim C9. In the result of \<open>calculateTotalScore\<close> the webshell flag is set only with a
  feature score above 90, or a total of at least 85, or a total of at least 70 together
  with a feature score above 80. So a feature score of at most 80 with a total below 85 is
  never flagged, whatever the behaviour and ML scores are.
\<close>

theorem webshell_flag_needs_evidence:
  fixes cfg r
  defines "r' \<equiv> calculateTotalScore cfg r"
  shows "(IsWebshell r' \<longrightarrow>
            FeatureScore r' > 90 \<or> TotalScore r' \<ge> 85 \<or>
            (TotalScore r' \<ge> 70 \<and> FeatureScore r' > 80)) \<and>
         (FeatureScore r' \<le> 80 \<and> TotalScore r' < 85 \<longrightarrow> \<not> IsWebshell r')"
  unfolding r'_def calculateTotalScore_def
  by (auto simp add: classifyRisk_def overrideHigh_def overrideSafe_def Let_def split: if_splits)

text \<open>
  Two instances: feature 85, behaviour 80, ML 40 is flagged with total 74.5 and feature
  score above 80; feature 80, behaviour 100, ML 50 has total 80 and is not flagged.
\<close>

theorem webshell_flag_needs_evidence_witness:
  "IsWebshell (calculateTotalScore config_all (result_of_scores 85 80 40 [''b''])) \<and>
   TotalScore (calculateTotalScore config_all (result_of_scores 85 80 40 [''b''])) \<ge> 70 \<and>
   FeatureScore (calculateTotalScore config_all (result_of_scores 85 80 40 [''b''])) > 80 \<and>
   FeatureScore (calculateTotalScore config_all (result_of_scores 80 100 50 [''b''])) \<le> 80 \<and>
   TotalScore (calculateTotalScore config_all (result_of_scores 80 100 50 [''b''])) < 85 \<and>
   \<not> IsWebshell (calculateTotalScore config_all (result_of_scores 80 100 50 [''b'']))"
proof -
  have t1: "TotalScore (calculateTotalScore config_all (result_of_scores 85 80 40 [''b''])) = 74.5"
    and w1: "IsWebshell (calculateTotalScore config_all (result_of_scores 85 80 40 [''b'']))"
    and t2: "TotalScore (calculateTotalScore config_all (result_of_scores 80 100 50 [''b''])) = 80"
    by (simp_all add: calculateTotalScore_def overrideSafe_def overrideHigh_def classifyRisk_def
        blendScores_def blendBehavior_def blendML_def Let_def weights_defs config_all_def
        result_of_scores_def newResult_def)
  have f: "FeatureScore (result_of_scores x y z bs) = x" for x y z bs
    by (simp add: result_of_scores_def)
  show ?thesis
    using webshell_flag_needs_evidence [of config_all "result_of_scores 85 80 40 [''b'']"]
      webshell_flag_needs_evidence [of config_all "result_of_scores 80 100 50 [''b'']"]
    by (simp add: t1 t2 w1 f)
qed

section \<open>Properties of feature matching\<close>

text \<open>
  Each loop adds to its two accumulators together: the regular-expression loop adds the
  weight and the text of every pattern that matches, the rule iterations add 50 and one formatted
  text for every rule match.
\<close>

lemma regexLoop_eq:
  "regexLoop w s ps score matches =
     (score + sum_list (map snd (filter (\<lambda>(p, sc). MatchString w p s) ps)),
      matches @ map (\<lambda>(p, sc). PatternText p) (filter (\<lambda>(p, sc). MatchString w p s) ps))"
  by (induction ps arbitrary: score matches) auto

lemma matchLoop_eq:
  "matchLoop ms score matches = (score + 50 * real (length ms), matches @ map formatMatch ms)"
  by (induction ms arbitrary: score matches) (auto simp add: algebra_simps)

lemma walkLoop_acc:
  "\<exists>new. fst (walkLoop es score matches) = (score + 50 * real (length new), matches @ new)"
proof (induction es score matches rule: walkLoop.induct)
  case (5 ms es score matches)
  from 5 [of "score + 50 * real (length ms)" "matches @ map formatMatch ms"]
  obtain new where
    "fst (walkLoop es (score + 50 * real (length ms)) (matches @ map formatMatch ms)) =
       (score + 50 * real (length ms) + 50 * real (length new),
        (matches @ map formatMatch ms) @ new)"
    by (auto simp add: matchLoop_eq)
  then have "fst (walkLoop (RuleScanned ms # es) score matches) =
       (score + 50 * real (length (map formatMatch ms @ new)), matches @ map formatMatch ms @ new)"
    by (simp add: matchLoop_eq algebra_simps)
  then show ?case by blast
next
  case (1 score matches)
  show ?case by (rule exI [of _ "[]"]) simp
next
  case (2 es score matches)
  show ?case by (rule exI [of _ "[]"]) simp
next
  case (3 es score matches)
  show ?case by (rule exI [of _ "[]"]) simp
next
  case (4 es score matches)
  then show ?case by simp
qed

lemma ruleTypeLoop_acc:
  "\<exists>new. ruleTypeLoop w dir c ts score matches =
     (score + 50 * real (length new), matches @ new)"
proof (induction ts arbitrary: score matches)
  case Nil
  show ?case by (rule exI [of _ "[]"]) simp
next
  case (Cons t ts)
  obtain n1 where w1: "fst (walkLoop (Walk w dir t c) score matches) =
      (score + 50 * real (length n1), matches @ n1)"
    using walkLoop_acc by blast
  obtain n2 where w2: "ruleTypeLoop w dir c ts (score + 50 * real (length n1)) (matches @ n1) =
      (score + 50 * real (length n1) + 50 * real (length n2), (matches @ n1) @ n2)"
    using Cons.IH by blast
  have "ruleTypeLoop w dir c (t # ts) score matches =
      (score + 50 * real (length (n1 @ n2)), matches @ (n1 @ n2))"
    using w1 w2 by (simp add: algebra_simps)
  then show ?case by blast
qed

lemma matchYaraRules_eq:
  "\<exists>matches. matchYaraRules cfg w c = Inr (min 100 (50 * real (length matches)), matches)"
proof -
  obtain new where "ruleTypeLoop w (Yara_RulesDir cfg) c (Yara_RuleTypes cfg) 0 [] =
      (0 + 50 * real (length new), [] @ new)"
    using ruleTypeLoop_acc by blast
  then have "matchYaraRules cfg w c = Inr (min 100 (50 * real (length new)), new)"
    by (simp add: matchYaraRules_def min_def)
  then show ?thesis by blast
qed






lemma featureMatch_error:
  "int (length c) > Yara_MaxFileSize cfg \<Longrightarrow> featureMatch cfg w c = Inl FileSizeExceeds"
  by (simp add: featureMatch_def)

lemma featureMatch_ok:
  assumes "int (length c) \<le> Yara_MaxFileSize cfg"
  shows "\<exists>fr. featureMatch cfg w c = Inr fr"
proof -
  obtain rs rm where rx: "matchRegexPatterns w c = (rs, rm)" by (cases "matchRegexPatterns w c")
  obtain ym where yr: "matchYaraRules cfg w c = Inr (min 100 (50 * real (length ym)), ym)"
    using matchYaraRules_eq by blast
  from assms rx yr show ?thesis
    by (simp add: featureMatch_def Let_def)
qed

text \<open>The match list of the regular-expression phase is empty exactly when no pattern matches.\<close>

lemma regex_matches_empty_iff:
  "snd (matchRegexPatterns w c) = [] \<longleftrightarrow> (\<forall>p. \<not> MatchString w p c)"
proof
  assume "snd (matchRegexPatterns w c) = []"
  then have a: "\<forall>x \<in> set WebshellPatterns. \<not> (case x of (p, sc) \<Rightarrow> MatchString w p c)"
    by (simp add: matchRegexPatterns_def regexLoop_eq filter_empty_conv)
  show "\<forall>p. \<not> MatchString w p c"
  proof
    fix p
    from a show "\<not> MatchString w p c"
      by (cases p) (simp_all add: WebshellPatterns_def)
  qed
next
  assume "\<forall>p. \<not> MatchString w p c"
  then show "snd (matchRegexPatterns w c) = []"
    by (simp add: matchRegexPatterns_def regexLoop_eq filter_empty_conv split_def)
qed

section \<open>Properties of behaviour analysis\<close>

text \<open>
  The four checks as sums over the table entries that are found in the trace. The file
  operations share one gate: the two benign directory names are looked for in the whole
  trace text.
\<close>

lemma fileOpsLoop_eq:
  "fileOpsLoop out ops score behaviors =
     (if Contains out ''/tmp/'' \<or> Contains out ''/var/cache/'' then (score, behaviors)
      else (score + sum_list (map (\<lambda>(p, sc, b). \<bar>sc\<bar>) (filter (\<lambda>(p, sc, b). Contains out p) ops)),
            behaviors @ map (\<lambda>(p, sc, b). b) (filter (\<lambda>(p, sc, b). Contains out p) ops)))"
  by (induction ops arbitrary: score behaviors) auto



lemma sensitiveLoop_eq:
  "sensitiveLoop out fs score behaviors =
     (score + sum_list (map (\<lambda>(f, sc, b). sc) (filter (\<lambda>(f, sc, b). Contains out (''open('' @ dquote @ f)) fs)),
      behaviors @ map (\<lambda>(f, sc, b). b) (filter (\<lambda>(f, sc, b). Contains out (''open('' @ dquote @ f)) fs))"
  by (induction fs arbitrary: score behaviors) auto







lemma sensitive_none:
  "filter P sensitiveFiles = [] \<Longrightarrow> sum_list (map (\<lambda>(f, sc, b). sc) (filter P sensitiveFiles)) = 0"
  by simp





text \<open>
  The two tables are Go maps. Visiting their entries in another order gives the same score
  and the same answer to whether any behaviour was found.
\<close>

lemma sum_filter_mset:
  "sum_list (map f (filter P xs)) = sum_mset (image_mset f (filter_mset P (mset xs)))"
  by (induction xs) simp_all

lemma fileOpsLoop_order:
  assumes "mset ops = mset ops'"
  shows "fst (fileOpsLoop out ops score behaviors) = fst (fileOpsLoop out ops' score behaviors)"
    and "snd (fileOpsLoop out ops score behaviors) = [] \<longleftrightarrow>
         snd (fileOpsLoop out ops' score behaviors) = []"
proof -
  show "fst (fileOpsLoop out ops score behaviors) = fst (fileOpsLoop out ops' score behaviors)"
    using assms by (simp add: fileOpsLoop_eq sum_filter_mset)
  have "filter P ops = [] \<longleftrightarrow> filter P ops' = []" for P
    using assms by (metis filter_empty_conv set_mset_mset)
  then show "snd (fileOpsLoop out ops score behaviors) = [] \<longleftrightarrow>
         snd (fileOpsLoop out ops' score behaviors) = []"
    by (simp add: fileOpsLoop_eq)
qed

lemma sensitiveLoop_order:
  assumes "mset fs = mset fs'"
  shows "fst (sensitiveLoop out fs score behaviors) = fst (sensitiveLoop out fs' score behaviors)"
    and "snd (sensitiveLoop out fs score behaviors) = [] \<longleftrightarrow>
         snd (sensitiveLoop out fs' score behaviors) = []"
proof -
  show "fst (sensitiveLoop out fs score behaviors) = fst (sensitiveLoop out fs' score behaviors)"
    using assms by (simp add: sensitiveLoop_eq sum_filter_mset)
  have "filter P fs = [] \<longleftrightarrow> filter P fs' = []" for P
    using assms by (metis filter_empty_conv set_mset_mset)
  then show "snd (sensitiveLoop out fs score behaviors) = [] \<longleftrightarrow>
         snd (sensitiveLoop out fs' score behaviors) = []"
    by (simp add: sensitiveLoop_eq)
qed

section \<open>Properties of the ML score\<close>

lemma predictLoop_in_bounds:
  "i + length fs \<le> length ws \<Longrightarrow> \<exists>score'. predictLoop fs ws i score = Inr score'"
  by (induction fs arbitrary: i score) auto

lemma predictLoop_out_of_bounds:
  "i \<le> length ws \<Longrightarrow> length ws < i + length fs \<Longrightarrow>
     predictLoop fs ws i score = Inl (PanicIndexOutOfRange (length ws) (length ws))"
proof (induction fs arbitrary: i score)
  case Nil
  then show ?case by simp
next
  case (Cons f fs)
  show ?case
  proof (cases "i < length ws")
    case True
    with Cons.prems have "Suc i \<le> length ws" "length ws < Suc i + length fs" by simp_all
    from Cons.IH [OF this] True show ?thesis by simp
  next
    case False
    with Cons.prems have "i = length ws" by simp
    then show ?thesis by simp
  qed
qed



section \<open>Properties of Detect\<close>







lemma later_stages_keep_scores [simp]:
  "BehaviorScore (classifyRisk r) = BehaviorScore r"
  "MLScore (classifyRisk r) = MLScore r"
  "BehaviorScore (overrideHigh r) = BehaviorScore r"
  "MLScore (overrideHigh r) = MLScore r"
  "BehaviorScore (overrideSafe r) = BehaviorScore r"
  "MLScore (overrideSafe r) = MLScore r"
  by (simp_all add: classifyRisk_def overrideHigh_def overrideSafe_def Let_def)




section \<open>The example inputs evaluated\<close>






lemma ex_cfg: "config detector_all = config_all" "mlModel detector_all = Some model_five"
  "BehaviorAnalysis_Enabled config_all" "MachineLearning_Enabled config_all"
  "ReadFile world_clean fp = Some ''<?php echo 1; ?>''"
  by (simp_all add: detector_all_def config_all_def world_clean_def)



lemma shell_fm: "featureMatch config_all world_shell shell_content =
   Inr \<lparr>Score = 100, Matches = [PatternText DangerousCall], YaraMatches = [],
        RegexMatches = [PatternText DangerousCall]\<rparr>"
  by (simp add: world_shell_def world_clean_def shell_content_def config_all_def featureMatch_def
      matchRegexPatterns_def WebshellPatterns_def matchYaraRules_def Let_def)

lemma shell_at: "analyzeTrace shell_trace = \<lparr>BScore = 30, BBehaviors = [''Attempted to delete files'']\<rparr>"
  by (simp add: shell_trace_def analyzeTrace_def dangerousFileOps_def connectCheck_def
      dangerousCommands_def sensitiveFiles_def dquote_def ToLower_def lowerChar_def)

lemma shell_ba: "behaviorAnalyze world_shell ''shell.php'' shell_content =
    Inr \<lparr>BScore = 30, BBehaviors = [''Attempted to delete files'']\<rparr>"
  by (simp add: world_shell_def world_clean_def behaviorAnalyze_def shell_at)

lemma shell_ef: "extractFeatures shell_content = Inr [25, 1, 0, 1, 0]"
  by (simp add: shell_content_def extractFeatures_def Count.simps)

lemma shell_ml: "mlDetect (Some model_five) shell_content = Inr 32.5"
  by (simp add: mlDetect_def shell_ef Predict_def model_five_def)

lemma shell_calc:
  "calculateTotalScore config_all
     \<lparr>FilePath = ''shell.php'', IsWebshell = False, RiskLevel = RiskLevelUnset,
      FeatureScore = 100, BehaviorScore = 30, MLScore = 65 / 2,
      MatchedFeatures = [PatternText DangerousCall],
      Behaviors = [''Attempted to delete files''], TotalScore = 0\<rparr> = shell_result"
  by (simp add: calculateTotalScore_def overrideSafe_def overrideHigh_def classifyRisk_def
      blendScores_def blendBehavior_def blendML_def Let_def weights_defs ex_cfg shell_result_def)

lemma shell_detect: "Detect detector_all world_shell ''shell.php'' = Inr shell_result"
proof -
  have rf: "ReadFile world_shell ''shell.php'' = Some shell_content"
    by (simp add: world_shell_def world_clean_def)
  show ?thesis
    by (simp add: Detect_def rf ex_cfg shell_fm detectBehavior_def shell_ba detectML_def shell_ml
        newResult_def shell_calc)
qed





section \<open>The claims about Detect and its parts\<close>



text \<open>
  Claim C7. \<open>featureMatch\<close> returns an error exactly when the content is longer than the
  configured maximum, and the error is the size error. Within the limit it returns a
  result. \<open>matchYaraRules\<close> never returns an error, whatever the walks over the rule
  directories meet: a rule file that fails ends its walk with a warning only.
\<close>

theorem featureMatch_fails_only_on_size:
  "((\<exists>err. featureMatch cfg w content = Inl err) \<longleftrightarrow>
      int (length content) > Yara_MaxFileSize cfg) \<and>
   (int (length content) > Yara_MaxFileSize cfg \<longrightarrow>
      featureMatch cfg w content = Inl FileSizeExceeds) \<and>
   (int (length content) \<le> Yara_MaxFileSize cfg \<longrightarrow>
      (\<exists>fr. featureMatch cfg w content = Inr fr)) \<and>
   (\<exists>score matches. matchYaraRules cfg w content = Inr (score, matches))"
proof (intro conjI impI)
  show "(\<exists>err. featureMatch cfg w content = Inl err) \<longleftrightarrow>
      int (length content) > Yara_MaxFileSize cfg"
  proof
    assume "\<exists>err. featureMatch cfg w content = Inl err"
    then show "int (length content) > Yara_MaxFileSize cfg"
      using featureMatch_ok [of content cfg w] by (cases "int (length content) > Yara_MaxFileSize cfg") auto
  next
    assume "int (length content) > Yara_MaxFileSize cfg"
    then show "\<exists>err. featureMatch cfg w content = Inl err"
      using featureMatch_error by blast
  qed
next
  assume "int (length content) > Yara_MaxFileSize cfg"
  then show "featureMatch cfg w content = Inl FileSizeExceeds" by (rule featureMatch_error)
next
  assume "int (length content) \<le> Yara_MaxFileSize cfg"
  then show "\<exists>fr. featureMatch cfg w content = Inr fr" by (rule featureMatch_ok)
next
  show "\<exists>score matches. matchYaraRules cfg w content = Inr (score, matches)"
    using matchYaraRules_eq by blast
qed

text \<open>
  The instance: sixteen bytes against a limit of four, and against the ten-megabyte limit
  in a world where one rule directory cannot be walked and the other holds a rule file
  that fails.
\<close>

theorem featureMatch_fails_only_on_size_witness:
  "int (length ''<?php echo 1; ?>'') > Yara_MaxFileSize config_tiny \<and>
   featureMatch config_tiny world_broken_rules ''<?php echo 1; ?>'' = Inl FileSizeExceeds \<and>
   int (length ''<?php echo 1; ?>'') \<le> Yara_MaxFileSize config_all \<and>
   featureMatch config_all world_broken_rules ''<?php echo 1; ?>'' =
     Inr \<lparr>Score = 0, Matches = [], YaraMatches = [], RegexMatches = []\<rparr>"
proof -
  have big: "int (length ''<?php echo 1; ?>'') > Yara_MaxFileSize config_tiny"
    by (simp add: config_tiny_def)
  have small: "int (length ''<?php echo 1; ?>'') \<le> Yara_MaxFileSize config_all"
    by (simp add: config_all_def)
  have ok: "featureMatch config_all world_broken_rules ''<?php echo 1; ?>'' =
     Inr \<lparr>Score = 0, Matches = [], YaraMatches = [], RegexMatches = []\<rparr>"
    by (simp add: world_broken_rules_def world_clean_def config_all_def featureMatch_def
        matchRegexPatterns_def WebshellPatterns_def matchYaraRules_def Let_def)
  from big small ok
    featureMatch_fails_only_on_size [of config_tiny world_broken_rules "''<?php echo 1; ?>''"]
    featureMatch_fails_only_on_size [of config_all world_broken_rules "''<?php echo 1; ?>''"]
  show ?thesis by simp
qed




text \<open>
  Claim C10. \<open>Predict\<close> compares the number of features with the declared feature count
  and nothing else. With that check passed, a weight list at least as long as the feature
  count makes every read of a weight fall inside the list and a score is returned; a
  shorter weight list makes the loop read at the index that equals the length of the
  list, which is out of range. \<open>LoadModel\<close> accepts whatever the decoder returns, so a
  file that declares five features and lists three weights is loaded.
\<close>

theorem Predict_weight_bounds:
  "(int (length features) \<noteq> Model.FeatureCount m \<longrightarrow>
      Predict (Some m) features =
        Inl (InvalidFeatureCount (Model.FeatureCount m) (length features))) \<and>
   (int (length features) = Model.FeatureCount m \<and>
    Model.FeatureCount m \<le> int (length (Weights (Model.ModelData m))) \<longrightarrow>
      (\<exists>p. Predict (Some m) features = Inr p)) \<and>
   (int (length features) = Model.FeatureCount m \<and>
    int (length (Weights (Model.ModelData m))) < Model.FeatureCount m \<longrightarrow>
      Predict (Some m) features =
        Inl (PanicIndexOutOfRange (length (Weights (Model.ModelData m)))
               (length (Weights (Model.ModelData m))))) \<and>
   (ReadFile w path = Some file \<and> Unmarshal w file = Some md \<longrightarrow>
      LoadModel w path =
        Inr \<lparr>Path = path, FeatureCount = ModelData.FeatureCount md, ModelData = md,
             Threshold = ModelData.Threshold md\<rparr>)"
proof (intro conjI impI)
  assume "int (length features) \<noteq> Model.FeatureCount m"
  then show "Predict (Some m) features =
        Inl (InvalidFeatureCount (Model.FeatureCount m) (length features))"
    by (simp add: Predict_def)
next
  assume a: "int (length features) = Model.FeatureCount m \<and>
    Model.FeatureCount m \<le> int (length (Weights (Model.ModelData m)))"
  then have "0 + length features \<le> length (Weights (Model.ModelData m))" by simp
  from predictLoop_in_bounds [OF this, of 0]
  obtain sc where "predictLoop features (Weights (Model.ModelData m)) 0 0 = Inr sc" by blast
  with a show "\<exists>p. Predict (Some m) features = Inr p" by (simp add: Predict_def)
next
  assume a: "int (length features) = Model.FeatureCount m \<and>
    int (length (Weights (Model.ModelData m))) < Model.FeatureCount m"
  then have "length (Weights (Model.ModelData m)) < 0 + length features" by simp
  from predictLoop_out_of_bounds [OF _ this, of 0]
  have "predictLoop features (Weights (Model.ModelData m)) 0 0 =
      Inl (PanicIndexOutOfRange (length (Weights (Model.ModelData m)))
               (length (Weights (Model.ModelData m))))" by simp
  with a show "Predict (Some m) features =
        Inl (PanicIndexOutOfRange (length (Weights (Model.ModelData m)))
               (length (Weights (Model.ModelData m))))"
    by (simp add: Predict_def)
next
  assume "ReadFile w path = Some file \<and> Unmarshal w file = Some md"
  then show "LoadModel w path =
        Inr \<lparr>Path = path, FeatureCount = ModelData.FeatureCount md, ModelData = md,
             Threshold = ModelData.Threshold md\<rparr>"
    by (simp add: LoadModel_def)
qed

text \<open>
  The instance: two features against the five-weight model are refused; five features
  against it give a score; the file with five declared features and three weights is
  loaded, and five features against that model panic at index 3.
\<close>

theorem Predict_weight_bounds_witness:
  "Predict (Some model_five) [1, 2] = Inl (InvalidFeatureCount 5 2) \<and>
   Predict (Some model_five) [25, 1, 0, 1, 0] = Inr 0.325 \<and>
   LoadModel world_short_model ''model.json'' = Inr short_model \<and>
   int (length [25, 1, 0, 1, 0 :: real]) = Model.FeatureCount short_model \<and>
   int (length (Weights (Model.ModelData short_model))) < Model.FeatureCount short_model \<and>
   Predict (Some short_model) [25, 1, 0, 1, 0] = Inl (PanicIndexOutOfRange 3 3)"
proof -
  have p: "Predict (Some model_five) [25, 1, 0, 1, 0] = Inr 0.325"
    by (simp add: Predict_def model_five_def)
  have l: "LoadModel world_short_model ''model.json'' = Inr short_model"
    by (simp add: LoadModel_def world_short_model_def world_clean_def short_model_def
        short_model_data_def)
  from p l
    Predict_weight_bounds [of "[1, 2]" model_five world_short_model "''model.json''" "''model file''" short_model_data]
    Predict_weight_bounds [of "[25, 1, 0, 1, 0]" short_model world_short_model "''model.json''" "''model file''" short_model_data]
  show ?thesis
    by (simp add: model_five_def short_model_def short_model_data_def)
qed

section \<open>The claims about the file-operation rule and the manual scan\<close>



text \<open>
  Claim C6, as stated, fails for the manual entry point. For the one-line webshell the
  detection result is flagged, and \<open>Start\<close> returns no error, so \<open>handleManualScan\<close>
  completes as it does for a harmless file.
\<close>

theorem manual_scan_counterexample:
  "Detect detector_all world_shell ''shell.php'' = Inr shell_result \<and>
   IsWebshell shell_result \<and>
   fst (Start (NewManualScanner config_all (Some model_five) ''shell.php'') world_shell) = None \<and>
   handleManualScan config_all (Some model_five) world_shell ''shell.php'' = Completed"
proof -
  have d: "Detect \<lparr>config = config_all, mlModel = Some model_five\<rparr> world_shell ''shell.php'' =
      Inr shell_result"
    using shell_detect by (simp add: detector_all_def)
  have s: "Start (NewManualScanner config_all (Some model_five) ''shell.php'') world_shell =
      (None, NewManualScanner config_all (Some model_five) ''shell.php'')"
    by (simp add: Start_def NewManualScanner_def d)
  have "handleManualScan config_all (Some model_five) world_shell ''shell.php'' = Completed"
    by (simp add: handleManualScan_def s Stop_def Let_def)
  with shell_detect s show ?thesis by (simp add: shell_result_def)
qed

text \<open>
  Claim C6, amended. \<open>Scan\<close> of the shared base returns the webshell-detected error
  exactly when the file exists and detection returns a flagged result; that error differs
  from the file-not-found and detection-failed errors. The manual path does not go through
  \<open>Scan\<close>: \<open>Start\<close> on a scanner that is not running returns no error whenever detection
  returns a result, flagged or not, and \<open>handleManualScan\<close> then completes.
\<close>

theorem Scan_signals_detection_Start_does_not:
  "(Stat w path \<and> Detect (detector s) w path = Inr r \<longrightarrow>
      Scan s w path = (if IsWebshell r then Some (WebshellDetected path) else None)) \<and>
   (Scan s w path = Some (WebshellDetected p) \<longrightarrow>
      Stat w path \<and> p = path \<and> (\<exists>r. Detect (detector s) w path = Inr r \<and> IsWebshell r)) \<and>
   (\<not> isRunning m \<and> Detect (detector m) w (filePath m) = Inr r \<longrightarrow>
      Start m w = (None, m\<lparr>isRunning := False\<rparr>)) \<and>
   (Detect \<lparr>config = cfg, mlModel = model\<rparr> w path = Inr r \<longrightarrow>
      handleManualScan cfg model w path = Completed)"
proof (intro conjI impI)
  assume "Stat w path \<and> Detect (detector s) w path = Inr r"
  then show "Scan s w path = (if IsWebshell r then Some (WebshellDetected path) else None)"
    by (simp add: Scan_def)
next
  assume a: "Scan s w path = Some (WebshellDetected p)"
  then show "Stat w path" by (simp add: Scan_def split: if_splits)
  show "p = path"
  proof (cases "Detect (detector s) w path")
    case (Inl e)
    with a show ?thesis by (cases e) (simp_all add: Scan_def split: if_splits)
  next
    case (Inr r')
    with a show ?thesis by (simp add: Scan_def split: if_splits)
  qed
  show "\<exists>r. Detect (detector s) w path = Inr r \<and> IsWebshell r"
  proof (cases "Detect (detector s) w path")
    case (Inl e)
    have "\<not> is_panic (WebshellDetected p)" by simp
    with a Inl show ?thesis by (auto simp add: Scan_def split: if_splits)
  next
    case (Inr r')
    with a show ?thesis by (simp add: Scan_def split: if_splits)
  qed
next
  assume "\<not> isRunning m \<and> Detect (detector m) w (filePath m) = Inr r"
  then show "Start m w = (None, m\<lparr>isRunning := False\<rparr>)"
    by (simp add: Start_def Let_def)
next
  assume d: "Detect \<lparr>config = cfg, mlModel = model\<rparr> w path = Inr r"
  have "Start (NewManualScanner cfg model path) w =
      (None, NewManualScanner cfg model path)"
    by (simp add: Start_def NewManualScanner_def d)
  then show "handleManualScan cfg model w path = Completed"
    by (simp add: handleManualScan_def Stop_def Let_def)
qed

text \<open>
  The instance: for the one-line webshell \<open>Scan\<close> returns the webshell-detected error and
  the manual entry point completes.
\<close>

theorem Scan_signals_detection_Start_does_not_witness:
  "Stat world_shell ''shell.php'' \<and>
   Detect (detector (NewManualScanner config_all (Some model_five) ''shell.php''))
     world_shell ''shell.php'' = Inr shell_result \<and>
   Scan (NewManualScanner config_all (Some model_five) ''shell.php'') world_shell ''shell.php'' =
     Some (WebshellDetected ''shell.php'') \<and>
   \<not> isRunning (NewManualScanner config_all (Some model_five) ''shell.php'') \<and>
   Start (NewManualScanner config_all (Some model_five) ''shell.php'') world_shell =
     (None, NewManualScanner config_all (Some model_five) ''shell.php'') \<and>
   handleManualScan config_all (Some model_five) world_shell ''shell.php'' = Completed"
proof -
  let ?m = "NewManualScanner config_all (Some model_five) ''shell.php''"
  have st: "Stat world_shell ''shell.php''" by (simp add: world_shell_def world_clean_def)
  have d: "Detect (detector ?m) world_shell ''shell.php'' = Inr shell_result"
    using shell_detect by (simp add: NewManualScanner_def detector_all_def)
  have d': "Detect \<lparr>config = config_all, mlModel = Some model_five\<rparr> world_shell ''shell.php'' =
      Inr shell_result"
    using shell_detect by (simp add: detector_all_def)
  have fp: "filePath ?m = ''shell.php''" and nr: "\<not> isRunning ?m"
    and upd: "?m\<lparr>isRunning := False\<rparr> = ?m"
    by (simp_all add: NewManualScanner_def)
  have w: "IsWebshell shell_result" by (simp add: shell_result_def)
  from st d d' fp nr upd w
    Scan_signals_detection_Start_does_not [of world_shell "''shell.php''" ?m shell_result
      "''shell.php''" ?m config_all "Some model_five"]
  show ?thesis by simp
qed


end
